theory Spec2Isabelle
  imports Main
begin

section \<open>The update-issue-status action\<close>

text \<open>
  A shallow embedding of \<^verbatim>\<open>src/update-issue-status.ts\<close> and \<^verbatim>\<open>src/main.ts\<close>.
  The action reads four inputs and the event payload, parses the project URL with the
  regular expression \<^verbatim>\<open>urlParse\<close>, sends two GraphQL queries and, when both gates let
  it through, one GraphQL mutation, and sets the output \<^verbatim>\<open>fieldName\<close>.

  The asynchronous function is modelled as a pure function that returns the list of the
  effects it performed, in order, together with its outcome: \<open>Inr ()\<close> when the promise
  resolves, \<open>Inl e\<close> when it rejects with the error \<open>e\<close>. The Octokit client is a
  parameter: one function per request shape, each giving either the error the request
  throws or the response data.
\<close>

subsection \<open>Strings and numbers of the host language\<close>

text \<open>
  JavaScript errors. \<open>Error\<close> is \<^verbatim>\<open>new Error(message)\<close> as thrown by the action itself,
  \<open>TypeError\<close> is the engine's error for a property read on \<^verbatim>\<open>undefined\<close> (messages as
  Node prints them), \<open>GraphqlResponseError\<close> stands for whatever a failed request throws.
\<close>

datatype error = Error string | TypeError string | GraphqlResponseError string

fun message :: "error \<Rightarrow> string" where
  "message (Error m) = m"
| "message (TypeError m) = m"
| "message (GraphqlResponseError m) = m"

text \<open>
  A JavaScript number that came out of \<^verbatim>\<open>parseInt\<close>. Numbers are IEEE doubles: an integer
  up to \<open>2 ^ 53\<close> is held exactly (\<open>Exact\<close>), a larger one is rounded to a nearby double
  (\<open>Rounded n\<close>: the value is near \<open>n\<close>, nothing more is said about it).
\<close>

datatype jsnum = NaN | Exact nat | Rounded nat

definition is_digit :: "char \<Rightarrow> bool" where
  "is_digit c \<longleftrightarrow> c \<in> set ''0123456789''"

definition digit_value :: "char \<Rightarrow> nat" where
  "digit_value c = of_char c - 48"

definition decimal :: "string \<Rightarrow> nat" where
  "decimal ds = foldl (\<lambda>a c. 10 * a + digit_value c) 0 ds"

text \<open>
  \<^verbatim>\<open>parseInt(s, 10)\<close> for a string \<open>s\<close> that does not start with white space or a sign
  (the action only passes the digits matched by \<^verbatim>\<open>\d+\<close>, or the empty string): the
  longest prefix of decimal digits is read, and no digit at all gives \<^verbatim>\<open>NaN\<close>.
\<close>

definition parseInt10 :: "string \<Rightarrow> jsnum" where
  "parseInt10 s =
     (let ds = takeWhile is_digit s in
      if ds = [] then NaN
      else if decimal ds \<le> 2 ^ 53 then Exact (decimal ds)
      else Rounded (decimal ds))"

text \<open>The decimal rendering of a number in a template literal.\<close>

fun show_nat :: "nat \<Rightarrow> string" where
  "show_nat n =
     (if n < 10 then [''0123456789'' ! n]
      else show_nat (n div 10) @ [''0123456789'' ! (n mod 10)])"

declare show_nat.simps [simp del]

text \<open>\<^verbatim>\<open>${x}\<close> for a value that may be \<^verbatim>\<open>undefined\<close>.\<close>

definition template :: "string option \<Rightarrow> string" where
  "template x = (case x of None \<Rightarrow> ''undefined'' | Some s \<Rightarrow> s)"

definition apostrophe :: char where
  "apostrophe = CHR 0x27"

definition quoted :: "string \<Rightarrow> string" where
  "quoted s = apostrophe # s @ [apostrophe]"

subsection \<open>The project URL\<close>

text \<open>
  \<^verbatim>\<open>/^(?:https:\/\/)?github\.com\/(?<ownerType>orgs|users)\/(?<ownerName>[^/]+)\/projects\/(?<projectNumber>\d+)/\<close>

  The three named groups of a match. None of them is optional, so each is defined
  whenever the expression matches.
\<close>

record url_groups =
  groups_ownerType :: string
  groups_ownerName :: string
  groups_projectNumber :: string

text \<open>\<open>strip_prefix p s\<close> matches the literal \<open>p\<close> at the start of \<open>s\<close> and gives the rest.\<close>

fun strip_prefix :: "string \<Rightarrow> string \<Rightarrow> string option" where
  "strip_prefix [] s = Some s"
| "strip_prefix (p # ps) [] = None"
| "strip_prefix (p # ps) (c # cs) = (if p = c then strip_prefix ps cs else None)"

text \<open>
  \<^verbatim>\<open>projectUrl.match(urlParse)\<close>. The expression is anchored at the start only. Its
  backtracking never finds a second way to match: after \<^verbatim>\<open>https://\<close> is taken the
  alternative without it would need the string to start with \<^verbatim>\<open>github.com\<close>; the two
  owner tokens start with different letters; \<^verbatim>\<open>[^/]+\<close> is greedy and must be followed by
  a slash, so it takes every character up to the next slash; \<^verbatim>\<open>\d+\<close> is greedy and
  nothing follows it, so it takes every digit there is. The matcher below therefore
  reads the string once from left to right. \<open>None\<close> is the \<^verbatim>\<open>null\<close> of a failed match.
\<close>

definition urlParse :: "string \<Rightarrow> url_groups option" where
  "urlParse s =
     (let s0 = (case strip_prefix ''https://'' s of Some r \<Rightarrow> r | None \<Rightarrow> s) in
      case strip_prefix ''github.com/'' s0 of
        None \<Rightarrow> None
      | Some s1 \<Rightarrow>
          (case (case strip_prefix ''orgs'' s1 of
                   Some r \<Rightarrow> Some (''orgs'', r)
                 | None \<Rightarrow>
                     (case strip_prefix ''users'' s1 of
                        Some r \<Rightarrow> Some (''users'', r)
                      | None \<Rightarrow> None)) of
             None \<Rightarrow> None
           | Some (tok, s2) \<Rightarrow>
               (case strip_prefix ''/'' s2 of
                  None \<Rightarrow> None
                | Some s3 \<Rightarrow>
                    (let nm = takeWhile (\<lambda>c. c \<noteq> CHR ''/'') s3;
                         s4 = dropWhile (\<lambda>c. c \<noteq> CHR ''/'') s3
                     in if nm = [] then None
                        else
                          (case strip_prefix ''/projects/'' s4 of
                             None \<Rightarrow> None
                           | Some s5 \<Rightarrow>
                               (let ds = takeWhile is_digit s5
                                in if ds = [] then None
                                   else Some \<lparr>groups_ownerType = tok,
                                              groups_ownerName = nm,
                                              groups_projectNumber = ds\<rparr>))))))"

text \<open>The return type \<^verbatim>\<open>'organization' | 'user'\<close> of \<^verbatim>\<open>mustGetOwnerTypeQuery\<close>.\<close>

datatype owner_type_query = organization | user

text \<open>
  \<^verbatim>\<open>mustGetOwnerTypeQuery(ownerType?: string)\<close>; \<open>None\<close> is an argument that is
  \<^verbatim>\<open>undefined\<close>.
\<close>

definition mustGetOwnerTypeQuery :: "string option \<Rightarrow> error + owner_type_query" where
  "mustGetOwnerTypeQuery ownerType =
     (let ownerTypeQuery =
            (if ownerType = Some ''orgs'' then Some organization
             else if ownerType = Some ''users'' then Some user
             else None)
      in case ownerTypeQuery of
           None \<Rightarrow>
             Inl (Error (''Unsupported ownerType: '' @ template ownerType
                         @ ''. Must be one of '' @ quoted ''orgs'' @ '' or '' @ quoted ''users''))
         | Some q \<Rightarrow> Inr q)"

subsection \<open>Inputs, event payload and remote responses\<close>

text \<open>The four values returned by \<^verbatim>\<open>core.getInput\<close>, named after the inputs.\<close>

record inputs =
  project_url :: string
  github_token :: string
  new_status :: string
  open_status :: string

text \<open>
  The issue or pull request record of the payload, with the three fields the action reads.
  An assignee is kept as its login; \<open>assignees = None\<close> is a record without that field.
\<close>

record item =
  number :: nat
  node_id :: string
  assignees :: "string list option"

text \<open>
  \<^verbatim>\<open>github.context.payload\<close>; \<open>payload_repository\<close> holds \<^verbatim>\<open>repository.owner.login\<close> when the
  payload has a repository.
\<close>

record payload =
  payload_issue :: "item option"
  payload_pull_request :: "item option"
  payload_repository :: "string option"

text \<open>
  \<^verbatim>\<open>ProjectNodeIDResponse\<close>: each of the two optional members holds its
  \<^verbatim>\<open>projectV2.id\<close>.
\<close>

record ProjectNodeIDResponse =
  resp_organization :: "string option"
  resp_user :: "string option"

text \<open>\<^verbatim>\<open>idResp[ownerTypeQuery]\<close>\<close>

fun member_of :: "ProjectNodeIDResponse \<Rightarrow> owner_type_query \<Rightarrow> string option" where
  "member_of r organization = resp_organization r"
| "member_of r user = resp_user r"

text \<open>
  \<^verbatim>\<open>fieldValueByName\<close>, as both response interfaces declare it: \<open>databaseId\<close> is
  \<^verbatim>\<open>field.databaseId\<close>.
\<close>

record fieldValueByName =
  databaseId :: string
  name :: string

text \<open>
  \<^verbatim>\<open>IssueStatusResponse\<close>: \<^verbatim>\<open>projectItems.nodes\<close>, each node being its
  \<^verbatim>\<open>fieldValueByName\<close>. The interface types the array as a one-element tuple; at run
  time it is an array of any length, and the query asks for at most one node.
\<close>

record IssueStatusResponse =
  nodes :: "fieldValueByName list"

text \<open>\<^verbatim>\<open>UpdateIssueStatusResponse\<close>: the \<^verbatim>\<open>projectV2Item\<close> of the mutation's payload.\<close>

record UpdateIssueStatusResponse =
  item_id :: string
  item_fieldValueByName :: fieldValueByName

text \<open>
  The variables of the mutation, \<^verbatim>\<open>{input: {fieldId, contentId, projectId, issueStatus}}\<close>.
  The mutation text sets \<^verbatim>\<open>value: $issueStatus\<close>.
\<close>

record update_input =
  input_fieldId :: string
  input_contentId :: "string option"
  input_projectId :: "string option"
  input_issueStatus :: string

text \<open>
  The three requests, each with what the action puts into it: the document
  \<^verbatim>\<open>getProject\<close> with the owner type spliced into its text and the variables
  \<^verbatim>\<open>{projectOwnerName, projectNumber}\<close>; the document \<^verbatim>\<open>issueStatus\<close>, sent without
  variables; the document \<^verbatim>\<open>updateIssueStatus\<close> with the variables above.
\<close>

datatype request =
  GetProject owner_type_query string jsnum
| IssueStatus
| UpdateIssueStatus update_input

text \<open>\<^verbatim>\<open>octokit.graphql\<close>, one function for each of the three requests.\<close>

record octokit =
  getProject :: "owner_type_query \<Rightarrow> string \<Rightarrow> jsnum \<Rightarrow> error + ProjectNodeIDResponse"
  issueStatusQuery :: "error + IssueStatusResponse"
  updateMutation :: "update_input \<Rightarrow> error + UpdateIssueStatusResponse"

text \<open>
  The lines written with \<^verbatim>\<open>core.debug\<close>, each with the value its template prints.
\<close>

datatype debug_line =
  IssueOwner "string option"
| IssueAssignees "string list"
| ProjectURL string
| ProjectOwner string
| ProjectNumber jsnum
| ProjectOwnerType string
| ProjectNodeID "string option"
| ContentID "string option"
| IssueStatusName string
| FieldID string

text \<open>What an invocation does to the outside.\<close>

datatype event =
  Info string
| Debug debug_line
| Graphql request
| SetOutput string string
| SetFailed string

subsection \<open>The workflow\<close>

definition skip_assigned :: "item option \<Rightarrow> string" where
  "skip_assigned i =
     ''Skipping issue '' @ template (map_option (\<lambda>x. show_nat (number x)) i)
     @ '' because it is already assigned an owner''"

definition skip_not_open :: "item option \<Rightarrow> string" where
  "skip_not_open i =
     ''Skipping issue '' @ template (map_option (\<lambda>x. show_nat (number x)) i)
     @ '' because it is not in an open status''"

definition invalid_project_url :: "string \<Rightarrow> string" where
  "invalid_project_url projectUrl =
     ''Invalid project URL: '' @ projectUrl
     @ ''. Project URL should match the format https://github.com/<orgs-or-users>/<ownerName>/projects/<projectNumber>''"

text \<open>The message of the \<^verbatim>\<open>TypeError\<close> for reading the property \<open>p\<close> of \<^verbatim>\<open>undefined\<close>.\<close>

definition cannot_read :: "string \<Rightarrow> string" where
  "cannot_read p = ''Cannot read properties of undefined (reading '' @ quoted p @ '')''"

text \<open>
  \<^verbatim>\<open>updateIssueStatus()\<close>, statement by statement. \<open>issueAssignees = None\<close> is the case
  where \<^verbatim>\<open>Object.keys\<close> is given \<^verbatim>\<open>undefined\<close> and throws; \<open>keys\<close> is the array it is
  given otherwise, whose keys are as many as its elements.
\<close>

definition updateIssueStatus ::
  "inputs \<Rightarrow> payload \<Rightarrow> octokit \<Rightarrow> event list \<times> (error + unit)" where
  "updateIssueStatus inp ctx client =
    (let projectUrl = project_url inp;
         newStatus = new_status inp;
         openStatus = open_status inp;
         issue = (case payload_issue ctx of Some i \<Rightarrow> Some i
                  | None \<Rightarrow> payload_pull_request ctx);
         issueOwnerName = payload_repository ctx;
         issueAssignees = (case payload_issue ctx of None \<Rightarrow> None | Some i \<Rightarrow> assignees i)
     in
     case issueAssignees of
       None \<Rightarrow> ([], Inl (TypeError ''Cannot convert undefined or null to object''))
     | Some keys \<Rightarrow>
     if length keys = 0 then ([Info (skip_assigned issue)], Inr ())
     else
     (let t1 = [Debug (IssueOwner issueOwnerName),
                Debug (IssueAssignees keys),
                Debug (ProjectURL projectUrl)]
      in
      case urlParse projectUrl of
        None \<Rightarrow> (t1, Inl (Error (invalid_project_url projectUrl)))
      | Some urlMatch \<Rightarrow>
      (let projectOwnerName = groups_ownerName urlMatch;
           projectNumber = parseInt10 (groups_projectNumber urlMatch);
           ownerType = groups_ownerType urlMatch
       in
       case mustGetOwnerTypeQuery (Some ownerType) of
         Inl e \<Rightarrow> (t1, Inl e)
       | Inr ownerTypeQuery \<Rightarrow>
       (let t2 = t1 @ [Debug (ProjectOwner projectOwnerName),
                       Debug (ProjectNumber projectNumber),
                       Debug (ProjectOwnerType ownerType),
                       Graphql (GetProject ownerTypeQuery projectOwnerName projectNumber)]
        in
        case getProject client ownerTypeQuery projectOwnerName projectNumber of
          Inl e \<Rightarrow> (t2, Inl e)
        | Inr idResp \<Rightarrow>
        (let t3 = t2 @ [Graphql IssueStatus]
         in
         case issueStatusQuery client of
           Inl e \<Rightarrow> (t3, Inl e)
         | Inr issueResp \<Rightarrow>
         (let projectId = member_of idResp ownerTypeQuery;
              contentId = map_option node_id issue
          in
          case nodes issueResp of
            [] \<Rightarrow> (t3, Inl (TypeError (cannot_read ''fieldValueByName'')))
          | node # _ \<Rightarrow>
          (let issueStatus = name node;
               fieldId = databaseId node;
               t4 = t3 @ [Debug (ProjectNodeID projectId),
                          Debug (ContentID contentId),
                          Debug (IssueStatusName issueStatus),
                          Debug (FieldID fieldId)]
           in
           if issueStatus \<noteq> openStatus
           then (t4 @ [Info (skip_not_open issue)], Inr ())
           else
           (let vars = \<lparr>input_fieldId = fieldId,
                        input_contentId = contentId,
                        input_projectId = projectId,
                        input_issueStatus = issueStatus\<rparr>;
                t5 = t4 @ [Graphql (UpdateIssueStatus vars)]
            in
            case updateMutation client vars of
              Inl e \<Rightarrow> (t5, Inl e)
            | Inr updResp \<Rightarrow>
                (t5 @ [SetOutput ''fieldName'' (name (item_fieldValueByName updResp))],
                 Inr ())))))))))"

text \<open>
  \<^verbatim>\<open>main.ts\<close>: a rejection sets the failure message and exits with 1, anything else
  exits with 0.
\<close>

definition main :: "inputs \<Rightarrow> payload \<Rightarrow> octokit \<Rightarrow> event list \<times> nat" where
  "main inp ctx client =
     (case updateIssueStatus inp ctx client of
        (t, Inl err) \<Rightarrow> (t @ [SetFailed (message err)], 1)
      | (t, Inr _) \<Rightarrow> (t, 0))"

text \<open>The requests of a run, and among them the mutations.\<close>

definition requests :: "event list \<Rightarrow> request list" where
  "requests t = concat (map (\<lambda>e. case e of Graphql r \<Rightarrow> [r] | _ \<Rightarrow> []) t)"

definition mutations :: "event list \<Rightarrow> update_input list" where
  "mutations t =
     concat (map (\<lambda>e. case e of Graphql (UpdateIssueStatus v) \<Rightarrow> [v] | _ \<Rightarrow> []) t)"

definition outputs :: "event list \<Rightarrow> (string \<times> string) list" where
  "outputs t = concat (map (\<lambda>e. case e of SetOutput k v \<Rightarrow> [(k, v)] | _ \<Rightarrow> []) t)"

text \<open>
  The status names a run has resolved: the action logs the name with
  \<^verbatim>\<open>core.debug(`Issue Status: ${issueStatus}`)\<close> as soon as it has read it from the
  response, and nowhere else.
\<close>

definition statuses :: "event list \<Rightarrow> string list" where
  "statuses t =
     concat (map (\<lambda>e. case e of Debug (IssueStatusName s) \<Rightarrow> [s] | _ \<Rightarrow> []) t)"

section \<open>Example run\<close>

text \<open>
  Issue 42 with one assignee, the project \<^verbatim>\<open>https://github.com/orgs/acme/projects/7\<close>,
  and a remote where the issue's project item has the status \<^verbatim>\<open>Todo\<close>. The remote sets
  the field to the name of the option it is asked for and reports that name back.
\<close>

definition example_inputs :: inputs where
  "example_inputs =
     \<lparr>project_url = ''https://github.com/orgs/acme/projects/7'',
      github_token = ''token'',
      new_status = ''In Progress'',
      open_status = ''Todo''\<rparr>"

definition example_item :: item where
  "example_item = \<lparr>number = 42, node_id = ''I_42'', assignees = Some [''octocat'']\<rparr>"

definition example_payload :: payload where
  "example_payload =
     \<lparr>payload_issue = Some example_item,
      payload_pull_request = None,
      payload_repository = Some ''acme''\<rparr>"

definition unassigned_payload :: payload where
  "unassigned_payload =
     \<lparr>payload_issue = Some \<lparr>number = 42, node_id = ''I_42'', assignees = Some []\<rparr>,
      payload_pull_request = None,
      payload_repository = Some ''acme''\<rparr>"

definition pull_request_payload :: payload where
  "pull_request_payload =
     \<lparr>payload_issue = None,
      payload_pull_request = Some \<lparr>number = 43, node_id = ''PR_43'', assignees = Some []\<rparr>,
      payload_repository = Some ''acme''\<rparr>"

definition example_client :: octokit where
  "example_client =
     \<lparr>getProject = (\<lambda>q login n. Inr \<lparr>resp_organization = Some ''PVT_7'', resp_user = None\<rparr>),
      issueStatusQuery = Inr \<lparr>nodes = [\<lparr>databaseId = ''F_1'', name = ''Todo''\<rparr>]\<rparr>,
      updateMutation =
        (\<lambda>v. Inr \<lparr>item_id = ''PVTI_1'',
                   item_fieldValueByName =
                     \<lparr>databaseId = input_fieldId v, name = input_issueStatus v\<rparr>\<rparr>)\<rparr>"

text \<open>The same remote with another status on the item, and with no project item at all.\<close>

definition client_with_status :: "string \<Rightarrow> octokit" where
  "client_with_status s =
     example_client\<lparr>issueStatusQuery := Inr \<lparr>nodes = [\<lparr>databaseId = ''F_1'', name = s\<rparr>]\<rparr>\<rparr>"

definition client_without_item :: octokit where
  "client_without_item = example_client\<lparr>issueStatusQuery := Inr \<lparr>nodes = []\<rparr>\<rparr>"

section \<open>Parsing the project URL\<close>

lemma strip_prefix_Some_iff: "strip_prefix p s = Some r \<longleftrightarrow> s = p @ r"
  by (induction p s rule: strip_prefix.induct) auto

lemma takeWhile_not_slash:
  "CHR ''/'' \<notin> set nm \<Longrightarrow> takeWhile (\<lambda>c. c \<noteq> CHR ''/'') (nm @ CHR ''/'' # r) = nm"
  by (induction nm) auto

lemma dropWhile_not_slash:
  "CHR ''/'' \<notin> set nm \<Longrightarrow>
   dropWhile (\<lambda>c. c \<noteq> CHR ''/'') (nm @ CHR ''/'' # r) = CHR ''/'' # r"
  by (induction nm) auto

lemma takeWhile_digits:
  "\<forall>c\<in>set ds. is_digit c \<Longrightarrow> takeWhile is_digit (ds @ r) = ds @ takeWhile is_digit r"
  by (induction ds) auto

text \<open>
  Every string that starts the way the expression asks for is matched, whatever follows,
  and the groups are the owner token, the characters up to the next slash and all the
  digits after \<^verbatim>\<open>/projects/\<close>.
\<close>

lemma urlParse_shape:
  assumes "scheme = [] \<or> scheme = ''https://''"
    and "tok = ''orgs'' \<or> tok = ''users''"
    and "nm \<noteq> []" and "CHR ''/'' \<notin> set nm"
    and "ds \<noteq> []" and "\<forall>c\<in>set ds. is_digit c"
  shows "urlParse (scheme @ ''github.com/'' @ tok @ ''/'' @ nm @ ''/projects/'' @ ds @ r)
           = Some \<lparr>groups_ownerType = tok, groups_ownerName = nm,
                   groups_projectNumber = ds @ takeWhile is_digit r\<rparr>"
  using assms
  by (auto simp: urlParse_def takeWhile_not_slash dropWhile_not_slash takeWhile_digits)

text \<open>
  Conversely, a match only happens on such a string, so that the expression fails
  exactly on the strings that do not start in the documented format.
\<close>

lemma takeWhile_not_slash_set: "CHR ''/'' \<notin> set (takeWhile (\<lambda>c. c \<noteq> CHR ''/'') s)"
  by (induction s) auto

lemma takeWhile_digit_set: "\<forall>c\<in>set (takeWhile is_digit s). is_digit c"
  by (induction s) auto

lemma urlParse_Some_parts:
  assumes "urlParse s = Some g"
  shows "\<exists>s3 s5.
           (s = ''github.com/'' @ groups_ownerType g @ ''/'' @ s3
            \<or> s = ''https://'' @ ''github.com/'' @ groups_ownerType g @ ''/'' @ s3)
         \<and> (groups_ownerType g = ''orgs'' \<or> groups_ownerType g = ''users'')
         \<and> groups_ownerName g = takeWhile (\<lambda>c. c \<noteq> CHR ''/'') s3
         \<and> dropWhile (\<lambda>c. c \<noteq> CHR ''/'') s3 = ''/projects/'' @ s5
         \<and> groups_projectNumber g = takeWhile is_digit s5
         \<and> groups_ownerName g \<noteq> [] \<and> groups_projectNumber g \<noteq> []"
  using assms
  by (auto simp: urlParse_def Let_def strip_prefix_Some_iff split: option.splits if_splits)

lemma urlParse_Some_shape:
  assumes "urlParse s = Some g"
  shows "\<exists>scheme r.
           (scheme = [] \<or> scheme = ''https://'')
         \<and> (groups_ownerType g = ''orgs'' \<or> groups_ownerType g = ''users'')
         \<and> groups_ownerName g \<noteq> [] \<and> CHR ''/'' \<notin> set (groups_ownerName g)
         \<and> groups_projectNumber g \<noteq> [] \<and> (\<forall>c\<in>set (groups_projectNumber g). is_digit c)
         \<and> s = scheme @ ''github.com/'' @ groups_ownerType g @ ''/'' @ groups_ownerName g
                 @ ''/projects/'' @ groups_projectNumber g @ r"
proof -
  from urlParse_Some_parts [OF assms] obtain s3 s5 where
    s: "s = [] @ ''github.com/'' @ groups_ownerType g @ ''/'' @ s3
        \<or> s = ''https://'' @ ''github.com/'' @ groups_ownerType g @ ''/'' @ s3"
    and tok: "groups_ownerType g = ''orgs'' \<or> groups_ownerType g = ''users''"
    and nm: "groups_ownerName g = takeWhile (\<lambda>c. c \<noteq> CHR ''/'') s3"
    and s5: "dropWhile (\<lambda>c. c \<noteq> CHR ''/'') s3 = ''/projects/'' @ s5"
    and ds: "groups_projectNumber g = takeWhile is_digit s5"
    and ne: "groups_ownerName g \<noteq> []" "groups_projectNumber g \<noteq> []"
    by auto
  have "s3 = groups_ownerName g @ ''/projects/'' @ groups_projectNumber g
               @ dropWhile is_digit s5"
    using takeWhile_dropWhile_id [of "\<lambda>c. c \<noteq> CHR ''/''" s3]
      takeWhile_dropWhile_id [of is_digit s5]
    by (simp add: nm s5 ds)
  with s have "\<exists>scheme. (scheme = [] \<or> scheme = ''https://'')
       \<and> s = scheme @ ''github.com/'' @ groups_ownerType g @ ''/'' @ groups_ownerName g
                 @ ''/projects/'' @ groups_projectNumber g @ dropWhile is_digit s5"
    by metis
  moreover have "CHR ''/'' \<notin> set (groups_ownerName g)"
    "\<forall>c\<in>set (groups_projectNumber g). is_digit c"
    by (simp_all add: nm ds takeWhile_not_slash_set takeWhile_digit_set)
  ultimately show ?thesis using tok ne by blast
qed

lemma urlParse_None_iff:
  "urlParse s = None \<longleftrightarrow>
     \<not> (\<exists>scheme tok nm ds r.
           (scheme = [] \<or> scheme = ''https://'') \<and> (tok = ''orgs'' \<or> tok = ''users'')
         \<and> nm \<noteq> [] \<and> CHR ''/'' \<notin> set nm \<and> ds \<noteq> [] \<and> (\<forall>c\<in>set ds. is_digit c)
         \<and> s = scheme @ ''github.com/'' @ tok @ ''/'' @ nm @ ''/projects/'' @ ds @ r)"
proof
  assume "urlParse s = None"
  then show "\<not> (\<exists>scheme tok nm ds r.
           (scheme = [] \<or> scheme = ''https://'') \<and> (tok = ''orgs'' \<or> tok = ''users'')
         \<and> nm \<noteq> [] \<and> CHR ''/'' \<notin> set nm \<and> ds \<noteq> [] \<and> (\<forall>c\<in>set ds. is_digit c)
         \<and> s = scheme @ ''github.com/'' @ tok @ ''/'' @ nm @ ''/projects/'' @ ds @ r)"
    using urlParse_shape by fastforce
next
  assume no: "\<not> (\<exists>scheme tok nm ds r.
           (scheme = [] \<or> scheme = ''https://'') \<and> (tok = ''orgs'' \<or> tok = ''users'')
         \<and> nm \<noteq> [] \<and> CHR ''/'' \<notin> set nm \<and> ds \<noteq> [] \<and> (\<forall>c\<in>set ds. is_digit c)
         \<and> s = scheme @ ''github.com/'' @ tok @ ''/'' @ nm @ ''/projects/'' @ ds @ r)"
  show "urlParse s = None"
  proof (cases "urlParse s")
    case None
    then show ?thesis .
  next
    case (Some g)
    from urlParse_Some_shape [OF Some] no show ?thesis by blast
  qed
qed

lemma digit_value_zero: "is_digit c \<Longrightarrow> digit_value c = 0 \<longleftrightarrow> c = CHR ''0''"
  by (auto simp: is_digit_def digit_value_def)

lemma foldl_decimal_zero:
  "\<forall>c\<in>set ds. is_digit c \<Longrightarrow>
   foldl (\<lambda>a c. 10 * a + digit_value c) a ds = 0 \<longleftrightarrow> a = 0 \<and> set ds \<subseteq> {CHR ''0''}"
  by (induction ds arbitrary: a) (auto simp: digit_value_zero)

lemma decimal_zero: "\<forall>c\<in>set ds. is_digit c \<Longrightarrow> decimal ds = 0 \<longleftrightarrow> set ds \<subseteq> {CHR ''0''}"
  by (simp add: decimal_def foldl_decimal_zero)

lemma parseInt10_digits:
  "ds \<noteq> [] \<Longrightarrow> \<forall>c\<in>set ds. is_digit c \<Longrightarrow> decimal ds \<le> 2 ^ 53 \<Longrightarrow>
   parseInt10 ds = Exact (decimal ds)"
  by (simp add: parseInt10_def Let_def takeWhile_eq_all_conv [THEN iffD2])

text \<open>
  C4, as the claim states it, fails where the digits are zeros: the expression accepts
  \<^verbatim>\<open>https://github.com/users/jdoe/projects/0\<close> and the number parsed is 0, which is not
  positive.
\<close>

theorem urlParse_project_zero:
  "urlParse ''https://github.com/users/jdoe/projects/0''
     = Some \<lparr>groups_ownerType = ''users'', groups_ownerName = ''jdoe'',
             groups_projectNumber = ''0''\<rparr>
   \<and> parseInt10 ''0'' = Exact 0"
  by (simp add: urlParse_def parseInt10_def is_digit_def decimal_def digit_value_def)

text \<open>
  C4, amended. For every URL that is exactly
  \<^verbatim>\<open>[https://]github.com/(orgs|users)/<ownerName>/projects/<projectNumber>\<close>, with a
  non-empty owner name free of slashes and a non-empty run of digits, the match gives
  exactly the owner token, the owner name and the digits; the owner token resolves to
  \<open>organization\<close> for \<^verbatim>\<open>orgs\<close> and to \<open>user\<close> for \<^verbatim>\<open>users\<close>; and the project number is
  the decimal value of the digits (exactly, up to \<open>2 ^ 53\<close>), a natural number that is 0
  precisely when every digit is 0.
\<close>

theorem urlParse_extracts:
  assumes "scheme = [] \<or> scheme = ''https://''"
    and "tok = ''orgs'' \<or> tok = ''users''"
    and "nm \<noteq> []" and "CHR ''/'' \<notin> set nm"
    and "ds \<noteq> []" and "\<forall>c\<in>set ds. is_digit c"
    and "decimal ds \<le> 2 ^ 53"
  shows "urlParse (scheme @ ''github.com/'' @ tok @ ''/'' @ nm @ ''/projects/'' @ ds)
           = Some \<lparr>groups_ownerType = tok, groups_ownerName = nm, groups_projectNumber = ds\<rparr>
         \<and> mustGetOwnerTypeQuery (Some tok)
             = Inr (if tok = ''orgs'' then organization else user)
         \<and> parseInt10 ds = Exact (decimal ds)
         \<and> (decimal ds = 0 \<longleftrightarrow> set ds \<subseteq> {CHR ''0''})"
proof -
  have "urlParse (scheme @ ''github.com/'' @ tok @ ''/'' @ nm @ ''/projects/'' @ ds @ [])
          = Some \<lparr>groups_ownerType = tok, groups_ownerName = nm,
                  groups_projectNumber = ds @ takeWhile is_digit []\<rparr>"
    using assms(1-6) by (rule urlParse_shape)
  moreover have "mustGetOwnerTypeQuery (Some tok)
                   = Inr (if tok = ''orgs'' then organization else user)"
    using assms(2) by (auto simp: mustGetOwnerTypeQuery_def)
  moreover have "parseInt10 ds = Exact (decimal ds)"
    using assms(5-7) by (rule parseInt10_digits)
  moreover have "decimal ds = 0 \<longleftrightarrow> set ds \<subseteq> {CHR ''0''}"
    using assms(6) by (rule decimal_zero)
  ultimately show ?thesis by simp
qed

text \<open>The two URLs of the specification's scenarios 1 and 2.\<close>

theorem urlParse_extracts_witness:
  "urlParse ''https://github.com/orgs/acme/projects/7''
     = Some \<lparr>groups_ownerType = ''orgs'', groups_ownerName = ''acme'',
             groups_projectNumber = ''7''\<rparr>
   \<and> mustGetOwnerTypeQuery (Some ''orgs'') = Inr organization
   \<and> parseInt10 ''7'' = Exact 7
   \<and> urlParse ''github.com/users/jdoe/projects/3''
     = Some \<lparr>groups_ownerType = ''users'', groups_ownerName = ''jdoe'',
             groups_projectNumber = ''3''\<rparr>
   \<and> mustGetOwnerTypeQuery (Some ''users'') = Inr user
   \<and> parseInt10 ''3'' = Exact 3"
  using urlParse_extracts [of "''https://''" "''orgs''" "''acme''" "''7''"]
    urlParse_extracts [of "[]" "''users''" "''jdoe''" "''3''"]
  by (simp add: is_digit_def decimal_def digit_value_def)



section \<open>Owner type\<close>

text \<open>
  C7. The token \<^verbatim>\<open>orgs\<close> resolves to \<open>organization\<close>, the token \<^verbatim>\<open>users\<close> to \<open>user\<close>, and
  every other argument, \<^verbatim>\<open>undefined\<close> included, makes the function throw an error whose
  message names the argument.
\<close>

theorem mustGetOwnerTypeQuery_cases:
  "mustGetOwnerTypeQuery (Some ''orgs'') = Inr organization
   \<and> mustGetOwnerTypeQuery (Some ''users'') = Inr user
   \<and> (\<forall>t. t \<noteq> Some ''orgs'' \<and> t \<noteq> Some ''users'' \<longrightarrow>
          mustGetOwnerTypeQuery t
            = Inl (Error (''Unsupported ownerType: '' @ template t
                          @ ''. Must be one of '' @ quoted ''orgs'' @ '' or '' @ quoted ''users'')))"
  by (simp add: mustGetOwnerTypeQuery_def)

theorem mustGetOwnerTypeQuery_cases_witness:
  "mustGetOwnerTypeQuery (Some ''teams'')
     = Inl (Error (''Unsupported ownerType: teams. Must be one of '' @ quoted ''orgs''
                   @ '' or '' @ quoted ''users''))
   \<and> mustGetOwnerTypeQuery None
     = Inl (Error (''Unsupported ownerType: undefined. Must be one of '' @ quoted ''orgs''
                   @ '' or '' @ quoted ''users''))"
  using mustGetOwnerTypeQuery_cases by (simp add: template_def)

section \<open>The workflow\<close>

lemmas path_splits = option.splits sum.splits list.splits if_splits

lemmas run_defs = updateIssueStatus_def Let_def requests_def mutations_def outputs_def
  statuses_def

lemmas example_defs = example_inputs_def example_payload_def example_item_def
  example_client_def unassigned_payload_def pull_request_payload_def client_with_status_def
  client_without_item_def urlParse_def is_digit_def parseInt10_def decimal_def
  digit_value_def mustGetOwnerTypeQuery_def

text \<open>
  The example run from its first statement to its last: three debug lines after the
  gate, three after the match, the two queries, four more debug lines, the mutation and
  the output.
\<close>

lemma example_run:
  "updateIssueStatus example_inputs example_payload example_client =
     ([Debug (IssueOwner (Some ''acme'')),
       Debug (IssueAssignees [''octocat'']),
       Debug (ProjectURL ''https://github.com/orgs/acme/projects/7''),
       Debug (ProjectOwner ''acme''),
       Debug (ProjectNumber (Exact 7)),
       Debug (ProjectOwnerType ''orgs''),
       Graphql (GetProject organization ''acme'' (Exact 7)),
       Graphql IssueStatus,
       Debug (ProjectNodeID (Some ''PVT_7'')),
       Debug (ContentID (Some ''I_42'')),
       Debug (IssueStatusName ''Todo''),
       Debug (FieldID ''F_1''),
       Graphql (UpdateIssueStatus
                  \<lparr>input_fieldId = ''F_1'', input_contentId = Some ''I_42'',
                   input_projectId = Some ''PVT_7'', input_issueStatus = ''Todo''\<rparr>),
       SetOutput ''fieldName'' ''Todo''],
      Inr ())"
  by (simp add: run_defs example_defs)

subsection \<open>The mutation's value\<close>

text \<open>
  C1 does not hold of the code. The input \<^verbatim>\<open>new-status\<close> is read and never used: no run
  depends on it. With the item in status \<^verbatim>\<open>Todo\<close>, open status \<^verbatim>\<open>Todo\<close> and new status
  \<^verbatim>\<open>In Progress\<close>, the one mutation sent carries the value \<^verbatim>\<open>Todo\<close>, the status the item
  already has.
\<close>

theorem new_status_unused:
  "updateIssueStatus (inp\<lparr>new_status := x\<rparr>) ctx client = updateIssueStatus inp ctx client
   \<and> new_status example_inputs = ''In Progress''
   \<and> open_status example_inputs = ''Todo''
   \<and> mutations (fst (updateIssueStatus example_inputs example_payload example_client))
       = [\<lparr>input_fieldId = ''F_1'', input_contentId = Some ''I_42'',
           input_projectId = Some ''PVT_7'', input_issueStatus = ''Todo''\<rparr>]"
proof -
  have "updateIssueStatus (inp\<lparr>new_status := x\<rparr>) ctx client
          = updateIssueStatus inp ctx client"
    by (simp add: updateIssueStatus_def)
  moreover have "mutations (fst (updateIssueStatus example_inputs example_payload
                                   example_client))
                   = [\<lparr>input_fieldId = ''F_1'', input_contentId = Some ''I_42'',
                       input_projectId = Some ''PVT_7'', input_issueStatus = ''Todo''\<rparr>]"
    by (simp add: example_run mutations_def)
  ultimately show ?thesis by (simp add: example_inputs_def)
qed

subsection \<open>The eligibility gate\<close>

text \<open>
  C2 does not hold of the code. The gate's comment and its log message speak of skipping
  an issue that is already assigned, but the test is \<^verbatim>\<open>length === 0\<close>: issue 42 with
  the assignee \<^verbatim>\<open>octocat\<close> is not skipped, all three requests are sent for it; the same
  issue without assignees is skipped, with the message that it is already assigned.
\<close>

theorem assigned_issue_not_skipped:
  "assignees example_item = Some [''octocat'']
   \<and> requests (fst (updateIssueStatus example_inputs example_payload example_client))
       = [GetProject organization ''acme'' (Exact 7),
          IssueStatus,
          UpdateIssueStatus
            \<lparr>input_fieldId = ''F_1'', input_contentId = Some ''I_42'',
             input_projectId = Some ''PVT_7'', input_issueStatus = ''Todo''\<rparr>]
   \<and> updateIssueStatus example_inputs unassigned_payload example_client
       = ([Info ''Skipping issue 42 because it is already assigned an owner''], Inr ())"
proof -
  have "updateIssueStatus example_inputs unassigned_payload example_client
          = ([Info ''Skipping issue 42 because it is already assigned an owner''], Inr ())"
    by (simp add: run_defs example_defs skip_assigned_def template_def show_nat.simps)
  then show ?thesis
    by (simp add: example_run requests_def example_item_def)
qed

text \<open>
  C9. The gate reads the assignees from the payload's issue only: no run depends on the
  payload's pull request, and when the payload has no issue, or an issue without
  assignees, \<^verbatim>\<open>Object.keys\<close> is given \<^verbatim>\<open>undefined\<close> and the run ends with a
  \<^verbatim>\<open>TypeError\<close> before anything is logged or sent.
\<close>

theorem assignees_from_issue_only:
  "updateIssueStatus inp (ctx\<lparr>payload_pull_request := pr\<rparr>) client
     = updateIssueStatus inp ctx client
   \<and> (payload_issue ctx = None \<or> (\<exists>i. payload_issue ctx = Some i \<and> assignees i = None)
        \<longrightarrow> updateIssueStatus inp ctx client
              = ([], Inl (TypeError ''Cannot convert undefined or null to object'')))"
  by (auto simp add: updateIssueStatus_def split: option.splits)

theorem assignees_from_issue_only_witness:
  "payload_issue pull_request_payload = None
   \<and> updateIssueStatus example_inputs pull_request_payload example_client
       = ([], Inl (TypeError ''Cannot convert undefined or null to object''))
   \<and> main example_inputs pull_request_payload example_client
       = ([SetFailed ''Cannot convert undefined or null to object''], 1)"
proof -
  have none: "payload_issue pull_request_payload = None"
    by (simp add: pull_request_payload_def)
  have "updateIssueStatus example_inputs pull_request_payload example_client
          = ([], Inl (TypeError ''Cannot convert undefined or null to object''))"
    using assignees_from_issue_only
            [where inp = example_inputs and ctx = pull_request_payload
               and client = example_client]
      none by simp
  then show ?thesis using none by (simp add: main_def)
qed

subsection \<open>An invalid project URL\<close>

text \<open>
  C3, as the claim states it, fails: the gate comes before the URL is parsed. With the URL
  \<^verbatim>\<open>https://gitlab.com/orgs/acme/projects/7\<close>, which the expression does not match, and
  an issue whose assignee list is empty, the run ends at the gate and resolves; no error
  is raised and the exit code is 0.
\<close>

theorem invalid_url_skipped_at_gate:
  "urlParse ''https://gitlab.com/orgs/acme/projects/7'' = None
   \<and> main (example_inputs\<lparr>project_url := ''https://gitlab.com/orgs/acme/projects/7''\<rparr>)
        unassigned_payload example_client
       = ([Info ''Skipping issue 42 because it is already assigned an owner''], 0)"
  by (simp add: main_def run_defs example_defs skip_assigned_def template_def show_nat.simps)

text \<open>
  C3, amended. The URL is parsed after the eligibility gate. For every project URL that
  the expression does not match, no request is sent, whatever the assignees are; and the
  run either ends at the gate (skipped, or the \<^verbatim>\<open>TypeError\<close> of a payload without
  assignees) or fails with the error whose message is \<^verbatim>\<open>Invalid project URL: \<close> followed
  by the offending input and the expected format.
\<close>

theorem invalid_url_no_request:
  assumes "urlParse (project_url inp) = None"
  shows "requests (fst (updateIssueStatus inp ctx client)) = []
         \<and> (snd (updateIssueStatus inp ctx client)
               = Inl (Error (invalid_project_url (project_url inp)))
            \<or> updateIssueStatus inp ctx client
               = ([Info (skip_assigned (payload_issue ctx))], Inr ())
            \<or> updateIssueStatus inp ctx client
               = ([], Inl (TypeError ''Cannot convert undefined or null to object'')))"
  using assms by (auto simp add: run_defs split: option.splits)

theorem invalid_url_no_request_witness:
  "urlParse (project_url (example_inputs\<lparr>project_url := ''https://gitlab.com/orgs/acme/projects/7''\<rparr>))
     = None
   \<and> requests (fst (updateIssueStatus
                      (example_inputs\<lparr>project_url := ''https://gitlab.com/orgs/acme/projects/7''\<rparr>)
                      example_payload example_client)) = []
   \<and> snd (updateIssueStatus
            (example_inputs\<lparr>project_url := ''https://gitlab.com/orgs/acme/projects/7''\<rparr>)
            example_payload example_client)
       = Inl (Error (invalid_project_url ''https://gitlab.com/orgs/acme/projects/7''))"
proof -
  let ?inp = "example_inputs\<lparr>project_url := ''https://gitlab.com/orgs/acme/projects/7''\<rparr>"
  have no_match: "urlParse (project_url ?inp) = None"
    by (simp add: urlParse_def)
  have "snd (updateIssueStatus ?inp example_payload example_client)
          = Inl (Error (invalid_project_url ''https://gitlab.com/orgs/acme/projects/7''))"
    by (simp add: run_defs example_defs)
  then show ?thesis
    using no_match invalid_url_no_request [OF no_match, of example_payload example_client]
    by simp
qed

subsection \<open>The status gate and the mutation\<close>





subsection \<open>An item that is on no project\<close>

text \<open>
  C8, as the claim states it, fails: there is no check of the node list. When the status
  query answers with an empty list, reading \<^verbatim>\<open>nodes[0].fieldValueByName\<close> throws the
  engine's own \<^verbatim>\<open>TypeError\<close>, and that generic error is what the run fails with.
\<close>

theorem missing_item_type_error:
  "issueStatusQuery client_without_item = Inr \<lparr>nodes = []\<rparr>
   \<and> updateIssueStatus example_inputs example_payload client_without_item
       = ([Debug (IssueOwner (Some ''acme'')),
           Debug (IssueAssignees [''octocat'']),
           Debug (ProjectURL ''https://github.com/orgs/acme/projects/7''),
           Debug (ProjectOwner ''acme''),
           Debug (ProjectNumber (Exact 7)),
           Debug (ProjectOwnerType ''orgs''),
           Graphql (GetProject organization ''acme'' (Exact 7)),
           Graphql IssueStatus],
          Inl (TypeError (''Cannot read properties of undefined (reading ''
                          @ quoted ''fieldValueByName'' @ '')'')))
   \<and> snd (main example_inputs example_payload client_without_item) = 1"
  by (simp add: main_def run_defs example_defs cannot_read_def)

text \<open>
  C8, amended. When a run has sent the status query and the answer holds no project
  item, the run does not go on: it fails with the \<^verbatim>\<open>TypeError\<close> for reading
  \<^verbatim>\<open>fieldValueByName\<close> of \<^verbatim>\<open>undefined\<close>, sends no mutation and sets no output.
\<close>

theorem missing_item_fails:
  assumes "IssueStatus \<in> set (requests (fst (updateIssueStatus inp ctx client)))"
    and "issueStatusQuery client = Inr issueResp"
    and "nodes issueResp = []"
  shows "snd (updateIssueStatus inp ctx client)
           = Inl (TypeError (cannot_read ''fieldValueByName''))
         \<and> mutations (fst (updateIssueStatus inp ctx client)) = []
         \<and> outputs (fst (updateIssueStatus inp ctx client)) = []"
  using assms by (auto simp add: run_defs split: path_splits)

theorem missing_item_fails_witness:
  "IssueStatus \<in> set (requests (fst (updateIssueStatus example_inputs example_payload
                                        client_without_item)))
   \<and> issueStatusQuery client_without_item = Inr \<lparr>nodes = []\<rparr>
   \<and> snd (updateIssueStatus example_inputs example_payload client_without_item)
       = Inl (TypeError (cannot_read ''fieldValueByName''))
   \<and> mutations (fst (updateIssueStatus example_inputs example_payload client_without_item))
       = []
   \<and> outputs (fst (updateIssueStatus example_inputs example_payload client_without_item))
       = []"
proof -
  have sent: "IssueStatus \<in> set (requests (fst (updateIssueStatus example_inputs
                                                  example_payload client_without_item)))"
    by (simp add: run_defs example_defs)
  have answer: "issueStatusQuery client_without_item = Inr \<lparr>nodes = []\<rparr>"
    by (simp add: client_without_item_def)
  show ?thesis
    using sent answer missing_item_fails [OF sent answer] by simp
qed

end
